theory Spec2Isabelle
  imports Complex_Main
begin

section \<open>Conventions of the embedding\<close>

text \<open>
  The development embeds the package \<^verbatim>\<open>yttranscript\<close> (files \<^verbatim>\<open>models.py\<close>,
  \<^verbatim>\<open>formatters.py\<close>, \<^verbatim>\<open>core.py\<close>, \<^verbatim>\<open>exceptions.py\<close>).

  \<^item> A Python \<^verbatim>\<open>str\<close> is a \<open>string\<close>; each \<open>char\<close> stands for one code point below 256.
  \<^item> A Python \<^verbatim>\<open>float\<close> that holds a time is a \<open>real\<close>: every finite float is a real number,
    and the rounding of float arithmetic, infinities and NaN are left out.
  \<^item> An exception is a value of the type \<open>exn\<close>; a function that can raise returns
    \<open>exn + 'a\<close>, with \<open>Inl\<close> for the raised exception.
\<close>

section \<open>Exceptions\<close>

text \<open>
  The five exception classes that \<^verbatim>\<open>core.py\<close> imports from the transcript library, the
  classes of \<^verbatim>\<open>exceptions.py\<close>, the built-in exceptions that the code can raise, any other
  subclass of \<^verbatim>\<open>Exception\<close>, and an exception outside \<^verbatim>\<open>Exception\<close> (such as a keyboard
  interrupt). Each carries the text that \<^verbatim>\<open>str(e)\<close> returns.
\<close>

datatype exn =
    YouTubeRequestFailed string
  | RequestBlocked string
  | TranscriptsDisabled string
  | NoTranscriptFound string
  | VideoUnavailable string
  | InvalidUrlError string
  | TranscriptNotAvailableError string
  | LanguageNotFoundError string
  | NetworkError string
  | ValueError string
  | IndexError string
  | TypeError string
  | OtherException string
  | KeyboardInterrupt

fun py_str :: "exn \<Rightarrow> string" where
  "py_str (YouTubeRequestFailed m) = m"
| "py_str (RequestBlocked m) = m"
| "py_str (TranscriptsDisabled m) = m"
| "py_str (NoTranscriptFound m) = m"
| "py_str (VideoUnavailable m) = m"
| "py_str (InvalidUrlError m) = m"
| "py_str (TranscriptNotAvailableError m) = m"
| "py_str (LanguageNotFoundError m) = m"
| "py_str (NetworkError m) = m"
| "py_str (ValueError m) = m"
| "py_str (IndexError m) = m"
| "py_str (TypeError m) = m"
| "py_str (OtherException m) = m"
| "py_str KeyboardInterrupt = []"

section \<open>models.py: videos, segments and transcripts\<close>

text \<open>
  \<^verbatim>\<open>Video\<close>: the optional fields have the default \<^verbatim>\<open>None\<close>; \<^verbatim>\<open>duration\<close> is named
  \<open>video_duration\<close>, since a segment has a field \<open>duration\<close> too.
\<close>

record Video =
  video_id :: string
  url :: string
  title :: "string option"
  video_duration :: "int option"
  available_languages :: "string list option"

text \<open>
  \<^verbatim>\<open>TranscriptSegment\<close> has the fields \<^verbatim>\<open>text\<close>, \<^verbatim>\<open>start\<close> and \<^verbatim>\<open>duration\<close>; the first is
  named \<open>seg_text\<close> here. \<^verbatim>\<open>Transcript\<close> has \<^verbatim>\<open>video_id\<close> (here \<open>tr_video_id\<close>, since
  \<^verbatim>\<open>Video\<close> has a field of the same name), \<^verbatim>\<open>language_code\<close>, \<^verbatim>\<open>segments\<close>,
  \<^verbatim>\<open>is_generated\<close> and \<^verbatim>\<open>is_translatable\<close>, the last two with the default \<^verbatim>\<open>False\<close>.
\<close>

record TranscriptSegment =
  seg_text :: string
  start :: "real option"
  duration :: "real option"

record Transcript =
  tr_video_id :: string
  language_code :: string
  segments :: "TranscriptSegment list"
  is_generated :: bool
  is_translatable :: bool

text \<open>The property \<^verbatim>\<open>end\<close> of a segment (\<open>end\<close> is reserved, hence \<open>seg_end\<close>).\<close>

definition seg_end :: "TranscriptSegment \<Rightarrow> real option" where
  "seg_end s =
     (case start s of
        None \<Rightarrow> None
      | Some st \<Rightarrow> (case duration s of None \<Rightarrow> None | Some d \<Rightarrow> Some (st + d)))"

text \<open>
  Truth value of an optional float under \<^verbatim>\<open>not\<close>/\<^verbatim>\<open>if\<close>: \<^verbatim>\<open>None\<close> and zero are false,
  every other number is true.
\<close>

definition truthy_float :: "real option \<Rightarrow> bool" where
  "truthy_float x = (case x of None \<Rightarrow> False | Some v \<Rightarrow> v \<noteq> 0)"

text \<open>
  \<^verbatim>\<open>total_duration\<close>:
  \<^verbatim>\<open>if not self.segments or not self.segments[-1].end: return None\<close>,
  \<^verbatim>\<open>return self.segments[-1].end\<close>. The index \<^verbatim>\<open>-1\<close> is read only on a non-empty list.
\<close>

definition total_duration :: "Transcript \<Rightarrow> real option" where
  "total_duration t =
     (if segments t = [] \<or> \<not> truthy_float (seg_end (last (segments t))) then None
      else seg_end (last (segments t)))"

text \<open>\<^verbatim>\<open>full_text\<close>: the texts joined by one space.\<close>

fun py_join :: "string \<Rightarrow> string list \<Rightarrow> string" where
  "py_join sep [] = []"
| "py_join sep (x # xs) = x @ concat (map (\<lambda>y. sep @ y) xs)"

definition full_text :: "Transcript \<Rightarrow> string" where
  "full_text t = py_join '' '' (map seg_text (segments t))"

section \<open>models.py: the timestamp of a segment\<close>

text \<open>
  Float floor division \<^verbatim>\<open>x // y\<close> and remainder \<^verbatim>\<open>x % y\<close> for a positive constant \<open>y\<close>, and
  \<^verbatim>\<open>int(x)\<close>, which truncates towards zero.
\<close>

definition py_floordiv :: "real \<Rightarrow> real \<Rightarrow> real" where
  "py_floordiv x y = of_int \<lfloor>x / y\<rfloor>"

definition py_mod :: "real \<Rightarrow> real \<Rightarrow> real" where
  "py_mod x y = x - y * of_int \<lfloor>x / y\<rfloor>"

definition py_int :: "real \<Rightarrow> int" where
  "py_int x = (if 0 \<le> x then \<lfloor>x\<rfloor> else \<lceil>x\<rceil>)"

text \<open>Decimal digits of a natural number, and the format specification \<^verbatim>\<open>02d\<close>:
  the sign first, then zeros up to a total width of two, then the digits.\<close>

definition digit_char :: "nat \<Rightarrow> char" where
  "digit_char d = ''0123456789'' ! d"

fun dec_digits :: "nat \<Rightarrow> string" where
  "dec_digits n =
     (if n < 10 then [digit_char n] else dec_digits (n div 10) @ [digit_char (n mod 10)])"

definition fmt_02d :: "int \<Rightarrow> string" where
  "fmt_02d i =
     (let sgn = (if i < 0 then ''-'' else []);
          ds = dec_digits (nat \<bar>i\<bar>)
      in sgn @ replicate (2 - (length sgn + length ds)) (CHR ''0'') @ ds)"

definition format_timestamp :: "TranscriptSegment \<Rightarrow> string" where
  "format_timestamp s =
     (case start s of
        None \<Rightarrow> []
      | Some st \<Rightarrow>
          (let hours = py_int (py_floordiv st 3600);
               minutes = py_int (py_floordiv (py_mod st 3600) 60);
               seconds = py_int (py_mod st 60)
           in ''['' @ fmt_02d hours @ '':'' @ fmt_02d minutes @ '':'' @ fmt_02d seconds @ '']''))"

section \<open>formatters.py\<close>

datatype FormatType = PLAIN | MARKDOWN | JSON

datatype Formatter = PlainFormatter | MarkdownFormatter

text \<open>
  The loop of \<^verbatim>\<open>PlainFormatter.format\<close>: \<open>lines\<close> is the list built so far, each round
  appends one line.
\<close>

definition plain_line :: "bool \<Rightarrow> TranscriptSegment \<Rightarrow> string" where
  "plain_line include_timestamps segment =
     (let line = [];
          line = (if include_timestamps \<and> start segment \<noteq> None
                  then line @ (format_timestamp segment @ '' '') else line);
          line = line @ seg_text segment
      in line)"

fun plain_loop :: "bool \<Rightarrow> string list \<Rightarrow> TranscriptSegment list \<Rightarrow> string list" where
  "plain_loop include_timestamps lines [] = lines"
| "plain_loop include_timestamps lines (segment # rest) =
     plain_loop include_timestamps (lines @ [plain_line include_timestamps segment]) rest"

definition plain_format :: "Transcript \<Rightarrow> bool \<Rightarrow> string" where
  "plain_format transcript include_timestamps =
     py_join [CHR 0x0A] (plain_loop include_timestamps [] (segments transcript))"

text \<open>The loop of \<^verbatim>\<open>MarkdownFormatter.format\<close>.\<close>

definition markdown_line :: "bool \<Rightarrow> TranscriptSegment \<Rightarrow> string" where
  "markdown_line include_timestamps segment =
     (let line = ''- '';
          line = (if include_timestamps \<and> start segment \<noteq> None
                  then line @ (''**'' @ format_timestamp segment @ ''** '') else line);
          line = line @ seg_text segment
      in line)"

fun markdown_loop :: "bool \<Rightarrow> string list \<Rightarrow> TranscriptSegment list \<Rightarrow> string list" where
  "markdown_loop include_timestamps lines [] = lines"
| "markdown_loop include_timestamps lines (segment # rest) =
     markdown_loop include_timestamps (lines @ [markdown_line include_timestamps segment]) rest"

definition markdown_format :: "Transcript \<Rightarrow> bool \<Rightarrow> string" where
  "markdown_format transcript include_timestamps =
     py_join [CHR 0x0A] (markdown_loop include_timestamps [] (segments transcript))"

definition format :: "Formatter \<Rightarrow> Transcript \<Rightarrow> bool \<Rightarrow> string" where
  "format f transcript include_timestamps =
     (case f of
        PlainFormatter \<Rightarrow> plain_format transcript include_timestamps
      | MarkdownFormatter \<Rightarrow> markdown_format transcript include_timestamps)"

text \<open>
  The argument of \<^verbatim>\<open>get_formatter\<close> is either a member of the enumeration or any other
  object, which carries the text that the f-string \<^verbatim>\<open>{format_type}\<close> renders.
\<close>

datatype format_arg = Member FormatType | NotMember string

fun get_formatter :: "format_arg \<Rightarrow> exn + Formatter" where
  "get_formatter (Member PLAIN) = Inr PlainFormatter"
| "get_formatter (Member MARKDOWN) = Inr MarkdownFormatter"
| "get_formatter (Member JSON) = Inl (ValueError ''JSON format is not yet implemented (P3 feature)'')"
| "get_formatter (NotMember shown) = Inl (ValueError (''Unsupported format type: '' @ shown))"


section \<open>Strings as Python handles them\<close>

definition code_point :: "char \<Rightarrow> nat" where
  "code_point c = of_char c"

text \<open>\<^verbatim>\<open>str.isalnum\<close>, \<^verbatim>\<open>str.isspace\<close> on one character with a code point below 256.\<close>

definition isalnum_char :: "char \<Rightarrow> bool" where
  "isalnum_char c =
     (let n = code_point c
      in (48 \<le> n \<and> n \<le> 57) \<or> (65 \<le> n \<and> n \<le> 90) \<or> (97 \<le> n \<and> n \<le> 122)
         \<or> n = 170 \<or> n = 178 \<or> n = 179 \<or> n = 181 \<or> n = 185 \<or> n = 186
         \<or> (188 \<le> n \<and> n \<le> 190) \<or> (192 \<le> n \<and> n \<le> 214) \<or> (216 \<le> n \<and> n \<le> 246)
         \<or> 248 \<le> n)"

definition isspace_char :: "char \<Rightarrow> bool" where
  "isspace_char c =
     (let n = code_point c
      in (9 \<le> n \<and> n \<le> 13) \<or> (28 \<le> n \<and> n \<le> 32) \<or> n = 133 \<or> n = 160)"

text \<open>\<^verbatim>\<open>s.isalnum()\<close>: false on the empty string.\<close>

definition isalnum :: "string \<Rightarrow> bool" where
  "isalnum s = (s \<noteq> [] \<and> list_all isalnum_char s)"

text \<open>\<^verbatim>\<open>s.replace(c, '')\<close> and \<^verbatim>\<open>s.replace(c, d)\<close> for single characters.\<close>

definition remove_char :: "char \<Rightarrow> string \<Rightarrow> string" where
  "remove_char c s = filter (\<lambda>x. x \<noteq> c) s"

definition replace_char :: "char \<Rightarrow> char \<Rightarrow> string \<Rightarrow> string" where
  "replace_char c d s = map (\<lambda>x. if x = c then d else x) s"

text \<open>\<^verbatim>\<open>s.strip()\<close>, \<^verbatim>\<open>s.lstrip(chars)\<close>, \<^verbatim>\<open>s.startswith(p)\<close>, \<^verbatim>\<open>sub in s\<close>.\<close>

definition py_strip :: "string \<Rightarrow> string" where
  "py_strip s = rev (dropWhile isspace_char (rev (dropWhile isspace_char s)))"

definition py_lstrip :: "string \<Rightarrow> string \<Rightarrow> string" where
  "py_lstrip chars s = dropWhile (\<lambda>c. c \<in> set chars) s"

fun startswith :: "string \<Rightarrow> string \<Rightarrow> bool" where
  "startswith s [] = True"
| "startswith [] (p # ps) = False"
| "startswith (c # s) (p # ps) = (c = p \<and> startswith s ps)"

fun contains :: "string \<Rightarrow> string \<Rightarrow> bool" where
  "contains [] sub = (sub = [])"
| "contains (c # s) sub = (startswith (c # s) sub \<or> contains s sub)"

text \<open>
  \<^verbatim>\<open>s.split(sep)\<close> for a non-empty separator (every call passes a constant one): the
  pieces between the occurrences of \<open>sep\<close>, found from the left. \<open>piece\<close> is the piece
  being read.
\<close>

fun split_from :: "string \<Rightarrow> string \<Rightarrow> string \<Rightarrow> string list" where
  "split_from sep piece [] = [piece]"
| "split_from sep piece (c # s) =
     (if startswith (c # s) sep then piece # split_from sep [] (drop (length sep - 1) s)
      else split_from sep (piece @ [c]) s)"

definition py_split :: "string \<Rightarrow> string \<Rightarrow> string list" where
  "py_split sep s = split_from sep [] s"

text \<open>\<^verbatim>\<open>s.split(c, 1)\<close> and \<^verbatim>\<open>s.partition(c)\<close> for one character: the text before the first
  \<open>c\<close> and the text after it.\<close>

definition before_char :: "char \<Rightarrow> string \<Rightarrow> string" where
  "before_char c s = takeWhile (\<lambda>x. x \<noteq> c) s"

definition after_char :: "char \<Rightarrow> string \<Rightarrow> string" where
  "after_char c s = drop 1 (dropWhile (\<lambda>x. x \<noteq> c) s)"

section \<open>The URL functions of the standard library\<close>

text \<open>
  \<^verbatim>\<open>urlparse\<close> and \<^verbatim>\<open>parse_qs\<close> belong to Python, not to the package; they are written
  out after \<^verbatim>\<open>urllib/parse.py\<close> of CPython 3.11. Two parts of them are taken as
  parameters: the validity check of a host in square brackets (it gives the message of the
  \<^verbatim>\<open>ValueError\<close> that it raises, if it raises), and the decoding of a text that contains
  percent escapes. The check of the host under NFKC normalisation never
  fails on code points below 256 and is left out.
\<close>

record stdlib =
  check_bracketed_host :: "string \<Rightarrow> string option"
  unquote_escapes :: "string \<Rightarrow> string"

record ParseResult =
  scheme :: string
  netloc :: string
  path :: string
  params :: string
  query :: string
  fragment :: string

definition scheme_chars :: string where
  "scheme_chars = ''abcdefghijklmnopqrstuvwxyzABCDEFGHIJKLMNOPQRSTUVWXYZ0123456789+-.''"

definition uses_params :: "string list" where
  "uses_params =
     [[], ''ftp'', ''hdl'', ''prospero'', ''http'', ''imap'', ''https'', ''shttp'', ''rtsp'',
      ''rtsps'', ''rtspu'', ''sip'', ''sips'', ''mms'', ''sftp'', ''tel'']"

definition is_ascii_alpha :: "char \<Rightarrow> bool" where
  "is_ascii_alpha c =
     (let n = code_point c in (65 \<le> n \<and> n \<le> 90) \<or> (97 \<le> n \<and> n \<le> 122))"

definition ascii_lower :: "string \<Rightarrow> string" where
  "ascii_lower s =
     map (\<lambda>c. if 65 \<le> code_point c \<and> code_point c \<le> 90 then char_of (code_point c + 32) else c) s"

text \<open>The leading characters that \<^verbatim>\<open>urlsplit\<close> strips (code points 0 to 32) and the three
  characters it removes everywhere (tab, carriage return, line feed).\<close>

definition c0_control_or_space :: "char \<Rightarrow> bool" where
  "c0_control_or_space c = (code_point c \<le> 32)"

definition unsafe_url_byte :: "char \<Rightarrow> bool" where
  "unsafe_url_byte c = (code_point c = 9 \<or> code_point c = 13 \<or> code_point c = 10)"

text \<open>\<^verbatim>\<open>_splitnetloc(url, 2)\<close> on a text that starts with two slashes: the host part ends
  at the first of \<^verbatim>\<open>/\<close>, \<^verbatim>\<open>?\<close>, \<^verbatim>\<open>#\<close> after them.\<close>

definition splitnetloc :: "string \<Rightarrow> string \<times> string" where
  "splitnetloc u =
     (let rest = drop 2 u;
          is_delim = (\<lambda>c. c = CHR ''/'' \<or> c = CHR ''?'' \<or> c = CHR ''#'')
      in (takeWhile (\<lambda>c. \<not> is_delim c) rest, dropWhile (\<lambda>c. \<not> is_delim c) rest))"

definition urlsplit :: "stdlib \<Rightarrow> string \<Rightarrow> exn + (string \<times> string \<times> string \<times> string \<times> string)" where
  "urlsplit lib url0 =
     (let u = dropWhile c0_control_or_space url0;
          u = filter (\<lambda>c. \<not> unsafe_url_byte c) u;
          head = before_char (CHR '':'') u;
          has_scheme = (CHR '':'' \<in> set u \<and> head \<noteq> [] \<and> code_point (hd u) < 128
                        \<and> is_ascii_alpha (hd u) \<and> list_all (\<lambda>c. c \<in> set scheme_chars) head);
          sch = (if has_scheme then ascii_lower head else []);
          u = (if has_scheme then after_char (CHR '':'') u else u);
          has_netloc = (take 2 u = ''//'');
          loc = (if has_netloc then fst (splitnetloc u) else []);
          u = (if has_netloc then snd (splitnetloc u) else u);
          has_open = (CHR ''['' \<in> set loc);
          has_close = (CHR '']'' \<in> set loc)
      in if has_netloc \<and> ((has_open \<and> \<not> has_close) \<or> (has_close \<and> \<not> has_open))
         then Inl (ValueError ''Invalid IPv6 URL'')
         else if has_netloc \<and> has_open \<and> has_close
                 \<and> check_bracketed_host lib
                       (before_char (CHR '']'') (after_char (CHR ''['') loc)) \<noteq> None
         then Inl (ValueError
                (the (check_bracketed_host lib
                       (before_char (CHR '']'') (after_char (CHR ''['') loc)))))
         else
           (let frag = (if CHR ''#'' \<in> set u then after_char (CHR ''#'') u else []);
                u = (if CHR ''#'' \<in> set u then before_char (CHR ''#'') u else u);
                qry = (if CHR ''?'' \<in> set u then after_char (CHR ''?'') u else []);
                u = (if CHR ''?'' \<in> set u then before_char (CHR ''?'') u else u)
            in Inr (sch, loc, u, qry, frag)))"

text \<open>\<^verbatim>\<open>_splitparams\<close>: the parameters follow the first \<^verbatim>\<open>;\<close> of the last path segment.\<close>

definition splitparams :: "string \<Rightarrow> string \<times> string" where
  "splitparams u =
     (if CHR ''/'' \<in> set u then
        (let r = length u - 1 - length (takeWhile (\<lambda>c. c \<noteq> CHR ''/'') (rev u));
             front = take r u;
             back = drop r u
         in if CHR '';'' \<in> set back
            then (front @ before_char (CHR '';'') back, after_char (CHR '';'') back)
            else (u, []))
      else (before_char (CHR '';'') u, after_char (CHR '';'') u))"

definition urlparse :: "stdlib \<Rightarrow> string \<Rightarrow> exn + ParseResult" where
  "urlparse lib url0 =
     (case urlsplit lib url0 of
        Inl e \<Rightarrow> Inl e
      | Inr (sch, loc, u, qry, frag) \<Rightarrow>
          (let split = (sch \<in> set uses_params \<and> CHR '';'' \<in> set u);
               par = (if split then snd (splitparams u) else []);
               u = (if split then fst (splitparams u) else u)
           in Inr \<lparr>scheme = sch, netloc = loc, path = u, params = par,
                   query = qry, fragment = frag\<rparr>))"

text \<open>\<^verbatim>\<open>unquote_plus\<close>, \<^verbatim>\<open>parse_qsl\<close> and \<^verbatim>\<open>parse_qs(qs).get(key, [None])[0]\<close>: the first
  value stored under \<open>key\<close>, with blank values dropped.\<close>

definition unquote_plus :: "stdlib \<Rightarrow> string \<Rightarrow> string" where
  "unquote_plus lib s0 =
     (let s = replace_char (CHR ''+'') (CHR '' '') s0
      in if CHR ''%'' \<notin> set s then s else unquote_escapes lib s)"

definition parse_qsl :: "stdlib \<Rightarrow> string \<Rightarrow> (string \<times> string) list" where
  "parse_qsl lib qs =
     (if qs = [] then []
      else concat (map (\<lambda>name_value.
             if name_value \<noteq> [] \<and> after_char (CHR ''='') name_value \<noteq> []
             then [(unquote_plus lib (before_char (CHR ''='') name_value),
                    unquote_plus lib (after_char (CHR ''='') name_value))]
             else [])
           (py_split ''&'' qs)))"

definition parse_qs_first :: "stdlib \<Rightarrow> string \<Rightarrow> string \<Rightarrow> string option" where
  "parse_qs_first lib qs key = map_of (parse_qsl lib qs) key"

section \<open>models.py: resolving a video reference\<close>

definition new_video :: "string \<Rightarrow> string \<Rightarrow> Video" where
  "new_video vid u =
     \<lparr>video_id = vid, url = u, title = None, video_duration = None, available_languages = None\<rparr>"

text \<open>
  \<^verbatim>\<open>Video.from_url\<close>. \<open>extracted\<close> is the local variable \<^verbatim>\<open>video_id\<close>, which starts as
  \<^verbatim>\<open>None\<close>.
\<close>

definition from_url :: "stdlib \<Rightarrow> string \<Rightarrow> exn + Video" where
  "from_url lib u =
     (if length u = 11 \<and> isalnum (remove_char (CHR ''_'') (remove_char (CHR ''-'') u))
      then Inr (new_video u (''https://youtube.com/watch?v='' @ u))
      else
        (case urlparse lib u of
           Inl e \<Rightarrow> Inl e
         | Inr parsed \<Rightarrow>
             (let extracted =
                (if contains (netloc parsed) ''youtube.com'' then
                   (if path parsed = ''/watch'' then Inr (parse_qs_first lib (query parsed) ''v'')
                    else if startswith (path parsed) ''/embed/'' then
                      (case py_split ''/embed/'' (path parsed) of
                         _ # second # _ \<Rightarrow> Inr (Some (hd (py_split ''?'' second)))
                       | _ \<Rightarrow> Inl (IndexError ''list index out of range''))
                    else Inr None)
                 else if contains (netloc parsed) ''youtu.be'' then
                   (let v = py_lstrip ''/'' (path parsed);
                        v = (if CHR ''?'' \<in> set v then hd (py_split ''?'' v) else v)
                    in Inr (Some v))
                 else Inl (InvalidUrlError (''Invalid YouTube URL format: '' @ u)))
              in case extracted of
                   Inl e \<Rightarrow> Inl e
                 | Inr None \<Rightarrow> Inl (InvalidUrlError (''Could not extract valid video ID from: '' @ u))
                 | Inr (Some v) \<Rightarrow>
                     (if v = [] \<or> length v \<noteq> 11
                      then Inl (InvalidUrlError (''Could not extract valid video ID from: '' @ u))
                      else Inr (new_video v u)))))"

section \<open>The transcript source\<close>

text \<open>
  The transcript library is outside the package. What the package uses of it:

  \<^item> \<^verbatim>\<open>api.list(video_id)\<close> returns a catalog or raises. It is called once per attempt of
    the retry loop, so it is a function of the number of calls made before.
  \<^item> A catalog is iterated in the order of its tracks; \<open>truthy\<close> is its truth value
    under \<^verbatim>\<open>if transcript_list:\<close>, which the class of the library decides.
  \<^item> \<^verbatim>\<open>track.fetch()\<close> returns the raw entries or raises; its argument here is the number
    of content fetches made before it in the same invocation.
  \<^item> A raw entry has either attributes (\<open>AttrItem\<close>) or keys (\<open>DictItem\<close>); it carries a
    text and optional \<^verbatim>\<open>start\<close> and \<^verbatim>\<open>duration\<close>.
  \<^item> \<^verbatim>\<open>random.uniform(0, 1)\<close> is the function \<open>uniform\<close> of the number of draws made
    before.
\<close>

datatype raw_item =
    AttrItem string "real option" "real option"
  | DictItem string "real option" "real option"

record track =
  track_language_code :: string
  track_language :: string
  track_is_generated :: bool
  translation_languages :: "string list"
  fetch :: "nat \<Rightarrow> exn + raw_item list"

record catalog =
  tracks :: "track list"
  truthy :: bool

record source =
  api_list :: "string \<Rightarrow> nat \<Rightarrow> exn + catalog"
  uniform :: "nat \<Rightarrow> real"

text \<open>
  Modelled from the spec: \<^verbatim>\<open>find_transcript(language_codes)\<close> of the library looks each
  code up in the catalog, in the order given, and returns the first track that has it;
  it raises \<^verbatim>\<open>NoTranscriptFound\<close> when no code is there.
\<close>

fun find_transcript :: "catalog \<Rightarrow> string list \<Rightarrow> exn + track" where
  "find_transcript c [] = Inl (NoTranscriptFound ''no transcript found'')"
| "find_transcript c (code # codes) =
     (case find (\<lambda>t. track_language_code t = code) (tracks c) of
        Some t \<Rightarrow> Inr t
      | None \<Rightarrow> find_transcript c codes)"

section \<open>core.py: the retry loop\<close>

text \<open>The \<^verbatim>\<open>except\<close> clause of \<^verbatim>\<open>_fetch_with_retry\<close> that catches an exception: the first
  names the two transient classes, the second the three permanent ones, the third is
  \<^verbatim>\<open>except Exception\<close>; nothing catches an exception outside \<^verbatim>\<open>Exception\<close>.\<close>

datatype clause = Transient | Permanent | AnyException | Uncaught

fun classify :: "exn \<Rightarrow> clause" where
  "classify (YouTubeRequestFailed m) = Transient"
| "classify (RequestBlocked m) = Transient"
| "classify (TranscriptsDisabled m) = Permanent"
| "classify (NoTranscriptFound m) = Permanent"
| "classify (VideoUnavailable m) = Permanent"
| "classify KeyboardInterrupt = Uncaught"
| "classify e = AnyException"

text \<open>
  What one call of \<^verbatim>\<open>_fetch_with_retry\<close> did: what it returned or raised, how often it
  called \<^verbatim>\<open>fetch_func\<close>, and the delays it passed to \<^verbatim>\<open>time.sleep\<close>, in order.
\<close>

record 'a retry_run =
  outcome :: "exn + 'a"
  attempts :: nat
  sleeps :: "real list"

definition py_range :: "int \<Rightarrow> nat list" where
  "py_range n = [0..<nat n]"

text \<open>
  The \<^verbatim>\<open>for attempt in range(self.max_retries)\<close> loop over the attempts still to make.
  \<open>fetch_func k\<close> is what the call number \<open>k\<close> (from zero) of the operation does;
  \<open>calls\<close> counts the calls made and \<open>slept\<close> holds the delays so far. After the loop
  comes \<^verbatim>\<open>raise last_exception\<close>, which raises \<^verbatim>\<open>TypeError\<close> when that is still \<^verbatim>\<open>None\<close>.
\<close>

fun retry_loop ::
  "int \<Rightarrow> (nat \<Rightarrow> real) \<Rightarrow> (nat \<Rightarrow> exn + 'a) \<Rightarrow> nat list \<Rightarrow> exn option \<Rightarrow> nat \<Rightarrow> real list
     \<Rightarrow> 'a retry_run" where
  "retry_loop max_retries jitter fetch_func [] last_exception calls slept =
     \<lparr>outcome =
        (case last_exception of
           None \<Rightarrow> Inl (TypeError ''exceptions must derive from BaseException'')
         | Some e \<Rightarrow> Inl e),
      attempts = calls, sleeps = slept\<rparr>"
| "retry_loop max_retries jitter fetch_func (attempt # rest) last_exception calls slept =
     (case fetch_func calls of
        Inr v \<Rightarrow> \<lparr>outcome = Inr v, attempts = Suc calls, sleeps = slept\<rparr>
      | Inl e \<Rightarrow>
          (case classify e of
             Transient \<Rightarrow>
               (if int attempt < max_retries - 1
                then retry_loop max_retries jitter fetch_func rest (Some e) (Suc calls)
                       (slept @ [2 ^ attempt + jitter (length slept)])
                else \<lparr>outcome = Inl e, attempts = Suc calls, sleeps = slept\<rparr>)
           | Permanent \<Rightarrow> \<lparr>outcome = Inl e, attempts = Suc calls, sleeps = slept\<rparr>
           | AnyException \<Rightarrow>
               (if int attempt < max_retries - 1
                then retry_loop max_retries jitter fetch_func rest (Some e) (Suc calls)
                       (slept @ [2 ^ attempt + jitter (length slept)])
                else \<lparr>outcome = Inl e, attempts = Suc calls, sleeps = slept\<rparr>)
           | Uncaught \<Rightarrow> \<lparr>outcome = Inl e, attempts = Suc calls, sleeps = slept\<rparr>))"

definition fetch_with_retry :: "int \<Rightarrow> (nat \<Rightarrow> real) \<Rightarrow> (nat \<Rightarrow> exn + 'a) \<Rightarrow> 'a retry_run" where
  "fetch_with_retry max_retries jitter fetch_func =
     retry_loop max_retries jitter fetch_func (py_range max_retries) None 0 []"

section \<open>core.py: building and extracting a transcript\<close>

text \<open>\<^verbatim>\<open>_build_transcript\<close>: one segment per raw entry, appended in order; the two flags
  of the transcript are not passed and keep their default.\<close>

fun build_segment :: "raw_item \<Rightarrow> TranscriptSegment" where
  "build_segment (AttrItem txt st du) = \<lparr>seg_text = py_strip txt, start = st, duration = du\<rparr>"
| "build_segment (DictItem txt st du) = \<lparr>seg_text = py_strip txt, start = st, duration = du\<rparr>"

fun build_loop :: "TranscriptSegment list \<Rightarrow> raw_item list \<Rightarrow> TranscriptSegment list" where
  "build_loop segs [] = segs"
| "build_loop segs (item # rest) = build_loop (segs @ [build_segment item]) rest"

definition build_transcript :: "string \<Rightarrow> string \<Rightarrow> raw_item list \<Rightarrow> Transcript" where
  "build_transcript vid code transcript_data =
     \<lparr>tr_video_id = vid, language_code = code, segments = build_loop [] transcript_data,
      is_generated = False, is_translatable = False\<rparr>"

text \<open>Truth value of the argument \<^verbatim>\<open>language\<close>: \<^verbatim>\<open>None\<close> and the empty text are false.\<close>

definition given :: "string option \<Rightarrow> bool" where
  "given language = (case language of None \<Rightarrow> False | Some l \<Rightarrow> l \<noteq> [])"

text \<open>
  What one call of \<^verbatim>\<open>extract_transcript\<close> did: its result, the calls of
  \<^verbatim>\<open>api.list\<close>, the calls of \<^verbatim>\<open>fetch\<close>, and the delays slept.
\<close>

record extraction =
  result :: "exn + Transcript"
  list_calls :: nat
  fetch_calls :: nat
  slept :: "real list"

text \<open>\<^verbatim>\<open>transcript.fetch()\<close> followed by \<^verbatim>\<open>_build_transcript\<close>, after \<open>n\<close> earlier content
  fetches: the value or exception, and the number of content fetches then made.\<close>

definition fetch_and_build ::
  "string \<Rightarrow> string \<Rightarrow> track \<Rightarrow> nat \<Rightarrow> (exn + Transcript) \<times> nat" where
  "fetch_and_build vid code t n =
     (case fetch t n of
        Inl e \<Rightarrow> (Inl e, Suc n)
      | Inr transcript_data \<Rightarrow> (Inr (build_transcript vid code transcript_data), Suc n))"

text \<open>The body of the outer \<^verbatim>\<open>try\<close> once the catalog is there.\<close>

definition select_and_fetch ::
  "string \<Rightarrow> string option \<Rightarrow> catalog \<Rightarrow> (exn + Transcript) \<times> nat" where
  "select_and_fetch vid language transcript_list =
     (if given language then
        (case find_transcript transcript_list [the language] of
           Inl e \<Rightarrow> (Inl e, 0)
         | Inr t \<Rightarrow> fetch_and_build vid (the language) t 0)
      else
        (let inner =
           (case find_transcript transcript_list [''en''] of
              Inl e \<Rightarrow> (Inl e, 0)
            | Inr t \<Rightarrow> fetch_and_build vid ''en'' t 0)
         in case inner of
              (Inl (NoTranscriptFound m), n) \<Rightarrow>
                (if truthy transcript_list then
                   (case tracks transcript_list of
                      [] \<Rightarrow> (Inl (IndexError ''list index out of range''), n)
                    | first_transcript # _ \<Rightarrow>
                        fetch_and_build vid (track_language_code first_transcript)
                          first_transcript n)
                 else
                   (Inl (TranscriptNotAvailableError (''No transcripts available for video '' @ vid)),
                    n))
            | other \<Rightarrow> other))"

text \<open>The \<^verbatim>\<open>except\<close> clauses of the outer \<^verbatim>\<open>try\<close>, in their order.\<close>

fun translate :: "string \<Rightarrow> string option \<Rightarrow> exn \<Rightarrow> exn" where
  "translate vid language (TranscriptsDisabled m) =
     TranscriptNotAvailableError
       (''Transcripts are disabled for video '' @ vid
          @ ''. The video may be private or have transcripts turned off.'')"
| "translate vid language (NoTranscriptFound m) =
     (if given language then
        LanguageNotFoundError
          (''No transcript found for language '' @ [CHR 0x27] @ the language @ [CHR 0x27]
             @ '' in video '' @ vid @ ''. Use --list-languages to see available options.'')
      else
        TranscriptNotAvailableError
          (''No transcript available for video '' @ vid
             @ ''. The video may not have transcripts or may be private.''))"
| "translate vid language (VideoUnavailable m) =
     TranscriptNotAvailableError
       (''Video '' @ vid @ '' is unavailable. It may be private, deleted, or region-restricted.'')"
| "translate vid language (YouTubeRequestFailed m) =
     NetworkError
       (''YouTube request failed. Please wait and try again later. Original error: '' @ m)"
| "translate vid language (RequestBlocked m) =
     NetworkError
       (''Request blocked by YouTube. Please wait and try again later. Original error: '' @ m)"
| "translate vid language KeyboardInterrupt = KeyboardInterrupt"
| "translate vid language e = NetworkError (''Network error occurred: '' @ py_str e)"

definition extract_transcript :: "int \<Rightarrow> source \<Rightarrow> string \<Rightarrow> string option \<Rightarrow> extraction" where
  "extract_transcript max_retries src vid language =
     (let listing = fetch_with_retry max_retries (uniform src) (api_list src vid);
          body = (case outcome listing of
                    Inl e \<Rightarrow> (Inl e, 0)
                  | Inr transcript_list \<Rightarrow> select_and_fetch vid language transcript_list)
      in \<lparr>result = (case fst body of
                      Inl e \<Rightarrow> Inl (translate vid language e)
                    | Inr transcript \<Rightarrow> Inr transcript),
          list_calls = attempts listing,
          fetch_calls = snd body,
          slept = sleeps listing\<rparr>)"

section \<open>Notions used to state the properties\<close>

text \<open>An attempt raises an exception of the first \<^verbatim>\<open>except\<close> clause (a transient
  failure), of the second (a permanent failure), or one that the loop retries at all.\<close>

definition raises_transient :: "exn + 'a \<Rightarrow> bool" where
  "raises_transient r = (case r of Inl e \<Rightarrow> classify e = Transient | Inr v \<Rightarrow> False)"


definition retried :: "exn + 'a \<Rightarrow> bool" where
  "retried r =
     (case r of Inl e \<Rightarrow> classify e = Transient \<or> classify e = AnyException | Inr v \<Rightarrow> False)"

text \<open>The delay before the retry that follows attempt \<open>i\<close>.\<close>

definition backoff :: "(nat \<Rightarrow> real) \<Rightarrow> nat \<Rightarrow> real" where
  "backoff jitter i = 2 ^ i + jitter i"

section \<open>Concrete inputs\<close>




definition half :: "nat \<Rightarrow> real" where
  "half k = 1 / 2"



text \<open>Raw entries, tracks and sources: a generated, translatable English track; a French
  track; an English track whose first content fetch fails transiently and whose later
  ones succeed; and the source that returns a given catalog at every call.\<close>

definition demo_entries :: "raw_item list" where
  "demo_entries =
     [DictItem ''Hello world'' (Some 0) (Some (5 / 2)),
      AttrItem '' Goodbye '' (Some (5 / 2)) (Some 3)]"

definition en_generated :: track where
  "en_generated =
     \<lparr>track_language_code = ''en'', track_language = ''English (auto-generated)'',
      track_is_generated = True, translation_languages = [''de''],
      fetch = (\<lambda>n. Inr demo_entries)\<rparr>"


definition en_flaky :: track where
  "en_flaky =
     \<lparr>track_language_code = ''en'', track_language = ''English'',
      track_is_generated = False, translation_languages = [],
      fetch = (\<lambda>n. if n = 0 then Inl (YouTubeRequestFailed ''test'') else Inr demo_entries)\<rparr>"

definition source_of :: "catalog \<Rightarrow> source" where
  "source_of c = \<lparr>api_list = (\<lambda>vid k. Inr c), uniform = half\<rparr>"

section \<open>Facts about timestamps and joined lines\<close>

declare dec_digits.simps [simp del]





















section \<open>Facts about the retry loop\<close>

lemma retry_loop_stops:
  assumes "\<forall>i. a \<le> i \<and> i < j \<longrightarrow> retried (op i)"
    and "a \<le> j" and "int j < mr"
    and "\<not> retried (op j) \<or> int j = mr - 1"
    and "length sl = a"
  shows "retry_loop mr jit op [a..<nat mr] le a sl =
           \<lparr>outcome = op j, attempts = Suc j, sleeps = sl @ map (backoff jit) [a..<j]\<rparr>"
  using assms
proof (induction "j - a" arbitrary: a le sl)
  case 0
  then have aj: "a = j" by simp
  from 0 have lt: "a < nat mr" by simp
  have up: "[a..<nat mr] = a # [Suc a..<nat mr]" using lt by (simp add: upt_conv_Cons)
  show ?case
  proof (cases "op j")
    case (Inr v)
    then show ?thesis using aj up by simp
  next
    case (Inl e)
    show ?thesis
    proof (cases "retried (op j)")
      case True
      with 0 have "int j = mr - 1" by simp
      then show ?thesis using Inl aj up by (simp split: clause.splits)
    next
      case False
      then show ?thesis using Inl aj up by (simp add: retried_def split: clause.splits)
    qed
  qed
next
  case (Suc k)
  then have aj: "a < j" by simp
  with Suc have lt: "a < nat mr" by simp
  have up: "[a..<nat mr] = a # [Suc a..<nat mr]" using lt by (simp add: upt_conv_Cons)
  from Suc aj have r: "retried (op a)" by simp
  then obtain e where e: "op a = Inl e" "classify e = Transient \<or> classify e = AnyException"
    by (auto simp: retried_def split: sum.splits)
  have cond: "int a < mr - 1" using aj Suc.prems(3) by simp
  have IH: "retry_loop mr jit op [Suc a..<nat mr] (Some e) (Suc a) (sl @ [backoff jit a]) =
          \<lparr>outcome = op j, attempts = Suc j,
           sleeps = (sl @ [backoff jit a]) @ map (backoff jit) [Suc a..<j]\<rparr>"
  proof (rule Suc.hyps(1))
    show "k = j - Suc a" using Suc.hyps(2) by simp
    show "\<forall>i. Suc a \<le> i \<and> i < j \<longrightarrow> retried (op i)" using Suc.prems(1) by simp
    show "Suc a \<le> j" using aj by simp
    show "int j < mr" by (rule Suc.prems(3))
    show "\<not> retried (op j) \<or> int j = mr - 1" by (rule Suc.prems(4))
    show "length (sl @ [backoff jit a]) = Suc a" using Suc.prems(5) by simp
  qed
  have "[a..<j] = a # [Suc a..<j]" using aj by (simp add: upt_conv_Cons)
  then show ?case
    using e cond up IH Suc.prems(5) by (auto simp: backoff_def)
qed

lemma fetch_with_retry_stops:
  assumes "\<forall>i<j. retried (op i)" and "int j < mr"
    and "\<not> retried (op j) \<or> int j = mr - 1"
  shows "fetch_with_retry mr jit op =
           \<lparr>outcome = op j, attempts = Suc j, sleeps = map (backoff jit) [0..<j]\<rparr>"
  using retry_loop_stops [of 0 j op mr "[]" jit None] assms
  by (simp add: fetch_with_retry_def py_range_def)



lemma transient_retried: "raises_transient r \<Longrightarrow> retried r"
  by (auto simp: raises_transient_def retried_def split: sum.splits)


lemma success_not_retried: "\<not> retried (Inr v)"
  by (simp add: retried_def)

section \<open>The retry policy\<close>

lemma backoff_map: "map (backoff jitter) xs = map (\<lambda>i. 2 ^ i + jitter i) xs"
  by (simp add: backoff_def)

lemma retry_then_final:
  assumes "\<forall>i<k. raises_transient (op i)" and "int k < max_retries"
    and "\<not> retried (op k)"
  shows "fetch_with_retry max_retries jitter op =
           \<lparr>outcome = op k, attempts = Suc k, sleeps = map (\<lambda>i. 2 ^ i + jitter i) [0..<k]\<rparr>"
proof -
  from assms(1) have "\<forall>i<k. retried (op i)"
    by (simp add: transient_retried)
  then have "fetch_with_retry max_retries jitter op =
               \<lparr>outcome = op k, attempts = Suc k, sleeps = map (backoff jitter) [0..<k]\<rparr>"
    using assms(2,3) by (intro fetch_with_retry_stops) simp_all
  then show ?thesis
    by (simp only: backoff_map)
qed





section \<open>The renderers\<close>



text \<open>
  C9. \<open>get_formatter\<close> on the member \<open>JSON\<close> returns no formatter: it raises a
  \<open>ValueError\<close> that says the format is not yet implemented. On an argument that is no
  member it raises a \<open>ValueError\<close> that says the format type is unsupported. The two
  exceptions differ, whatever the argument.
\<close>

theorem get_formatter_failures:
  "get_formatter (Member JSON) = Inl (ValueError ''JSON format is not yet implemented (P3 feature)'')
   \<and> get_formatter (NotMember shown) = Inl (ValueError (''Unsupported format type: '' @ shown))
   \<and> get_formatter (Member JSON) \<noteq> get_formatter (NotMember shown)
   \<and> get_formatter (Member JSON) \<noteq> Inr f
   \<and> get_formatter (NotMember shown) \<noteq> Inr f"
  by simp

section \<open>The total duration\<close>

lemma total_duration_None_iff:
  "total_duration t = None \<longleftrightarrow>
     segments t = [] \<or> start (last (segments t)) = None \<or> duration (last (segments t)) = None
     \<or> the (start (last (segments t))) + the (duration (last (segments t))) = 0"
  by (auto simp: total_duration_def seg_end_def truthy_float_def split: option.splits)

text \<open>
  C8. The claim: \<open>total_duration\<close> is absent exactly when there is no segment or the last
  segment lacks its start or its duration, and is the end of the last segment otherwise.
  The code tests the end of the last segment with \<^verbatim>\<open>not\<close>, which is also true of an end
  of zero: for the single segment that starts at 0 and lasts 0 seconds, the end is 0 and
  \<open>total_duration\<close> is absent.
\<close>

theorem total_duration_zero_end_absent:
  "segments
     \<lparr>tr_video_id = ''ABCDEFGHIJK'', language_code = ''en'',
      segments = [\<lparr>seg_text = ''x'', start = Some 0, duration = Some 0\<rparr>],
      is_generated = False, is_translatable = False\<rparr> \<noteq> []
   \<and> seg_end \<lparr>seg_text = ''x'', start = Some 0, duration = Some 0\<rparr> = Some 0
   \<and> total_duration
        \<lparr>tr_video_id = ''ABCDEFGHIJK'', language_code = ''en'',
         segments = [\<lparr>seg_text = ''x'', start = Some 0, duration = Some 0\<rparr>],
         is_generated = False, is_translatable = False\<rparr> = None"
  by (simp add: total_duration_def seg_end_def truthy_float_def)

section \<open>Extraction\<close>

lemma fetch_with_retry_first:
  assumes "1 \<le> max_retries" and "op 0 = Inr v"
  shows "fetch_with_retry max_retries jitter op = \<lparr>outcome = Inr v, attempts = 1, sleeps = []\<rparr>"
  using retry_then_final [of 0 op max_retries jitter] assms by (simp add: success_not_retried)

lemma listing_source_of:
  "1 \<le> max_retries \<Longrightarrow>
   fetch_with_retry max_retries (uniform (source_of c)) (api_list (source_of c) vid) =
     \<lparr>outcome = Inr c, attempts = 1, sleeps = []\<rparr>"
  by (rule fetch_with_retry_first) (simp_all add: source_of_def)


lemma fetch_and_build_flags:
  assumes "fst (fetch_and_build vid code tr n) = Inr t"
  shows "\<not> is_generated t \<and> \<not> is_translatable t"
  using assms by (auto simp: fetch_and_build_def build_transcript_def split: sum.splits)

lemma select_and_fetch_flags:
  assumes "fst (select_and_fetch vid language c) = Inr t"
  shows "\<not> is_generated t \<and> \<not> is_translatable t"
proof (cases "given language")
  case True
  with assms show ?thesis
    by (auto simp: select_and_fetch_def split: sum.splits dest: fetch_and_build_flags)
next
  case False
  show ?thesis
  proof (cases "find_transcript c [''en'']")
    case (Inl e)
    with assms False show ?thesis
      by (auto simp: select_and_fetch_def split: sum.splits exn.splits list.splits if_splits
          dest: fetch_and_build_flags)
  next
    case (Inr tr)
    obtain r n where rn: "fetch_and_build vid ''en'' tr 0 = (r, n)"
      by (cases "fetch_and_build vid ''en'' tr 0")
    show ?thesis
    proof (cases r)
      case (Inr t')
      with assms False \<open>find_transcript c [''en''] = Inr tr\<close> rn have "t' = t"
        by (simp add: select_and_fetch_def)
      moreover from rn Inr have "fst (fetch_and_build vid ''en'' tr 0) = Inr t'" by simp
      ultimately show ?thesis using fetch_and_build_flags by blast
    next
      case (Inl e)
      with assms False \<open>find_transcript c [''en''] = Inr tr\<close> rn show ?thesis
        by (auto simp: select_and_fetch_def split: exn.splits list.splits if_splits
            dest: fetch_and_build_flags)
    qed
  qed
qed

text \<open>
  C10. Whenever \<open>extract_transcript\<close> returns a transcript, its flags \<open>is_generated\<close> and
  \<open>is_translatable\<close> are both false, whatever the flags of the chosen track are.
\<close>

theorem extracted_flags_default:
  assumes "result (extract_transcript max_retries src vid language) = Inr t"
  shows "is_generated t = False \<and> is_translatable t = False"
proof -
  obtain c where c: "outcome (fetch_with_retry max_retries (uniform src) (api_list src vid)) = Inr c"
    using assms by (auto simp: extract_transcript_def Let_def split: sum.splits)
  with assms have "fst (select_and_fetch vid language c) = Inr t"
    by (auto simp: extract_transcript_def Let_def split: sum.splits)
  then show ?thesis
    using select_and_fetch_flags by simp
qed

theorem extracted_flags_default_witness:
  "track_is_generated en_generated = True
   \<and> translation_languages en_generated = [''de'']
   \<and> result (extract_transcript 3 (source_of \<lparr>tracks = [en_generated], truthy = True\<rparr>)
        ''ABCDEFGHIJK'' None) =
       Inr (build_transcript ''ABCDEFGHIJK'' ''en'' demo_entries)
   \<and> is_generated (build_transcript ''ABCDEFGHIJK'' ''en'' demo_entries) = False
   \<and> is_translatable (build_transcript ''ABCDEFGHIJK'' ''en'' demo_entries) = False"
proof -
  have run: "result (extract_transcript 3 (source_of \<lparr>tracks = [en_generated], truthy = True\<rparr>)
        ''ABCDEFGHIJK'' None) =
       Inr (build_transcript ''ABCDEFGHIJK'' ''en'' demo_entries)"
    by (simp add: extract_transcript_def listing_source_of select_and_fetch_def given_def
        fetch_and_build_def en_generated_def)
  show ?thesis
    using extracted_flags_default [OF run] run by (simp add: en_generated_def)
qed




text \<open>
  C2. The claim: with no requested language and an empty catalog, \<open>extract_transcript\<close>
  raises \<open>TranscriptNotAvailableError\<close>. The code raises \<open>NetworkError\<close>: when the catalog
  object is true, indexing its empty list of tracks raises \<open>IndexError\<close>; when it is
  false, the \<open>TranscriptNotAvailableError\<close> is raised inside the outer \<^verbatim>\<open>try\<close>; either
  exception is caught by \<^verbatim>\<open>except Exception\<close> and replaced.
\<close>

theorem empty_catalog_network_error:
  "result (extract_transcript 3 (source_of \<lparr>tracks = [], truthy = True\<rparr>) ''ABCDEFGHIJK'' None) =
     Inl (NetworkError ''Network error occurred: list index out of range'')
   \<and> result (extract_transcript 3 (source_of \<lparr>tracks = [], truthy = False\<rparr>) ''ABCDEFGHIJK'' None) =
     Inl (NetworkError ''Network error occurred: No transcripts available for video ABCDEFGHIJK'')"
  by (simp add: extract_transcript_def listing_source_of select_and_fetch_def given_def)

text \<open>
  C3. The claim: the content fetch runs under the retry policy as the catalog fetch does.
  The code calls \<^verbatim>\<open>transcript.fetch()\<close> directly: with a track whose first content fetch
  fails transiently and whose second would succeed, and three attempts allowed, the call
  raises \<open>NetworkError\<close> after one content fetch and no sleep.
\<close>

theorem content_fetch_not_retried:
  "fetch en_flaky 0 = Inl (YouTubeRequestFailed ''test'')
   \<and> fetch en_flaky 1 = Inr demo_entries
   \<and> extract_transcript 3 (source_of \<lparr>tracks = [en_flaky], truthy = True\<rparr>) ''ABCDEFGHIJK'' None =
       \<lparr>result = Inl (NetworkError
           (''YouTube request failed. Please wait and try again later. Original error: test'')),
        list_calls = 1, fetch_calls = 1, slept = []\<rparr>"
  by (simp add: extract_transcript_def listing_source_of select_and_fetch_def given_def
      fetch_and_build_def en_flaky_def)

section \<open>Resolving a video reference\<close>

lemma resolve_watch:
  "from_url lib ''https://youtube.com/watch?v=ABCDEFGHIJK'' =
     Inr (new_video ''ABCDEFGHIJK'' ''https://youtube.com/watch?v=ABCDEFGHIJK'')"
  by code_simp

lemma resolve_watch_www:
  "from_url lib ''https://www.youtube.com/watch?v=ABCDEFGHIJK&t=5s'' =
     Inr (new_video ''ABCDEFGHIJK'' ''https://www.youtube.com/watch?v=ABCDEFGHIJK&t=5s'')"
  by code_simp

lemma resolve_short:
  "from_url lib ''https://youtu.be/ABCDEFGHIJK'' =
     Inr (new_video ''ABCDEFGHIJK'' ''https://youtu.be/ABCDEFGHIJK'')"
  by code_simp

lemma resolve_short_query:
  "from_url lib ''https://youtu.be/ABCDEFGHIJK?t=5'' =
     Inr (new_video ''ABCDEFGHIJK'' ''https://youtu.be/ABCDEFGHIJK?t=5'')"
  by code_simp

lemma resolve_embed:
  "from_url lib ''https://youtube.com/embed/ABCDEFGHIJK'' =
     Inr (new_video ''ABCDEFGHIJK'' ''https://youtube.com/embed/ABCDEFGHIJK'')"
  by code_simp

lemma resolve_bare:
  "from_url lib ''ABCDEFGHIJK'' =
     Inr (new_video ''ABCDEFGHIJK'' ''https://youtube.com/watch?v=ABCDEFGHIJK'')"
  by code_simp

lemma resolve_vimeo:
  "from_url lib ''https://vimeo.com/123456'' =
     Inl (InvalidUrlError ''Invalid YouTube URL format: https://vimeo.com/123456'')"
  by code_simp

lemma resolve_no_v:
  "from_url lib ''https://youtube.com/watch'' =
     Inl (InvalidUrlError ''Could not extract valid video ID from: https://youtube.com/watch'')"
  by code_simp

text \<open>
  C5. Each of the six references \<^verbatim>\<open>https://youtube.com/watch?v=ABCDEFGHIJK\<close>,
  \<^verbatim>\<open>https://www.youtube.com/watch?v=ABCDEFGHIJK&t=5s\<close>, \<^verbatim>\<open>https://youtu.be/ABCDEFGHIJK\<close>,
  \<^verbatim>\<open>https://youtu.be/ABCDEFGHIJK?t=5\<close>, \<^verbatim>\<open>https://youtube.com/embed/ABCDEFGHIJK\<close> and
  \<^verbatim>\<open>ABCDEFGHIJK\<close> resolves to a video with the id \<^verbatim>\<open>ABCDEFGHIJK\<close>;
  \<^verbatim>\<open>https://vimeo.com/123456\<close> and \<^verbatim>\<open>https://youtube.com/watch\<close> raise \<open>InvalidUrlError\<close>.
\<close>

theorem from_url_examples:
  "from_url lib ''https://youtube.com/watch?v=ABCDEFGHIJK'' =
     Inr (new_video ''ABCDEFGHIJK'' ''https://youtube.com/watch?v=ABCDEFGHIJK'')
   \<and> from_url lib ''https://www.youtube.com/watch?v=ABCDEFGHIJK&t=5s'' =
     Inr (new_video ''ABCDEFGHIJK'' ''https://www.youtube.com/watch?v=ABCDEFGHIJK&t=5s'')
   \<and> from_url lib ''https://youtu.be/ABCDEFGHIJK'' =
     Inr (new_video ''ABCDEFGHIJK'' ''https://youtu.be/ABCDEFGHIJK'')
   \<and> from_url lib ''https://youtu.be/ABCDEFGHIJK?t=5'' =
     Inr (new_video ''ABCDEFGHIJK'' ''https://youtu.be/ABCDEFGHIJK?t=5'')
   \<and> from_url lib ''https://youtube.com/embed/ABCDEFGHIJK'' =
     Inr (new_video ''ABCDEFGHIJK'' ''https://youtube.com/embed/ABCDEFGHIJK'')
   \<and> from_url lib ''ABCDEFGHIJK'' =
     Inr (new_video ''ABCDEFGHIJK'' ''https://youtube.com/watch?v=ABCDEFGHIJK'')
   \<and> from_url lib ''https://vimeo.com/123456'' =
     Inl (InvalidUrlError ''Invalid YouTube URL format: https://vimeo.com/123456'')
   \<and> from_url lib ''https://youtube.com/watch'' =
     Inl (InvalidUrlError ''Could not extract valid video ID from: https://youtube.com/watch'')
   \<and> video_id (new_video ''ABCDEFGHIJK'' u) = ''ABCDEFGHIJK''"
  by (simp only: resolve_watch resolve_watch_www resolve_short resolve_short_query resolve_embed
      resolve_bare resolve_vimeo resolve_no_v new_video_def Video.simps simp_thms)

lemma isalnum_without_marks:
  "isalnum (remove_char (CHR ''_'') (remove_char (CHR ''-'') u)) \<longleftrightarrow>
     (\<exists>c \<in> set u. c \<noteq> CHR ''-'' \<and> c \<noteq> CHR ''_'')
     \<and> (\<forall>c \<in> set u. isalnum_char c \<or> c = CHR ''-'' \<or> c = CHR ''_'')"
  by (auto simp: isalnum_def remove_char_def list_all_iff filter_empty_conv)

lemma from_url_bare_id:
  assumes "length u = 11"
    and "\<forall>c \<in> set u. isalnum_char c \<or> c = CHR ''-'' \<or> c = CHR ''_''"
    and "\<exists>c \<in> set u. c \<noteq> CHR ''-'' \<and> c \<noteq> CHR ''_''"
  shows "from_url lib u = Inr (new_video u (''https://youtube.com/watch?v='' @ u))"
  using assms by (simp only: from_url_def isalnum_without_marks) simp

text \<open>
  C6. The claim: every text of 11 characters, each alphanumeric, a hyphen or an
  underscore, is taken as a bare id. The code removes hyphens and underscores and asks
  \<^verbatim>\<open>isalnum()\<close> of the rest, which is false of the empty text: the text of 11 hyphens is
  not taken as an id, is parsed as a URL and raises \<open>InvalidUrlError\<close>.
\<close>

theorem from_url_all_hyphens:
  "length ''-----------'' = 11
   \<and> list_all (\<lambda>c. isalnum_char c \<or> c = CHR ''-'' \<or> c = CHR ''_'') ''-----------''
   \<and> from_url lib ''-----------'' =
       Inl (InvalidUrlError ''Invalid YouTube URL format: -----------'')"
  by code_simp

end
